theory Spec2Isabelle
  imports Main "HOL-Library.Word"
begin

unbundle bit_operations_syntax

section \<open>Machine types of \<^verbatim>\<open>portable_binary.c\<close>\<close>

text \<open>
  \<^verbatim>\<open>uint8_t\<close>, \<^verbatim>\<open>uint32_t\<close> and \<^verbatim>\<open>int32_t\<close> are words of their width. An
  \<^verbatim>\<open>int32_t\<close> is the 32-bit two's-complement pattern; \<open>sint\<close> reads its signed value.
  The operands of \<^verbatim>\<open><<\<close>, \<^verbatim>\<open>>>\<close>, \<^verbatim>\<open>&\<close> and \<^verbatim>\<open>|\<close> are promoted to the 32-bit
  \<^verbatim>\<open>int\<close>, so these operators are computed on \<open>32 word\<close>: \<^verbatim>\<open>>>\<close> on an
  \<^verbatim>\<open>int32_t\<close> is the arithmetic shift \<open>signed_drop_bit\<close>, \<^verbatim>\<open>>>\<close> on a \<^verbatim>\<open>uint32_t\<close> the
  logical shift \<open>drop_bit\<close>, and \<^verbatim>\<open><<\<close> is \<open>push_bit\<close>, which drops the bits shifted
  out of the 32. ISO C leaves \<^verbatim>\<open>bytes[0] << 24\<close> undefined when bit 7 of the byte is set
  and the right shift of a negative \<^verbatim>\<open>int\<close> implementation-defined; compilers for
  two's-complement machines produce the wrapped pattern and the arithmetic shift, which is
  what is modelled.
\<close>

type_synonym uint8_t = "8 word"
type_synonym uint32_t = "32 word"
type_synonym int32_t = "32 word"

text \<open>
  A \<^verbatim>\<open>float\<close> is modelled by its 32-bit object representation, the only thing the program
  ever looks at: \<^verbatim>\<open>*((uint32_t*)&value)\<close> is \<open>float_bits value\<close> and
  \<^verbatim>\<open>*((float*)&as_int)\<close> is \<open>Float32 as_int\<close>.
\<close>

datatype float32 = Float32 (float_bits: uint32_t)

section \<open>Streams\<close>

text \<open>
  A \<^verbatim>\<open>FILE*\<close> opened for writing is the list of the bytes written to it so far, and
  \<^verbatim>\<open>fwrite(ptr, n, 1, stream)\<close> appends the \<open>n\<close> bytes of the array \<open>ptr\<close>. The stream is
  in memory: a write never fails.
\<close>

type_synonym ostream = "uint8_t list"

definition fwrite :: "uint8_t list \<Rightarrow> ostream \<Rightarrow> ostream" where
  "fwrite ptr stream = stream @ ptr"

text \<open>
  A \<^verbatim>\<open>FILE*\<close> opened for reading is the list of the bytes not read yet and its end-of-file
  indicator. A stream whose indicator is set yields no byte (ISO C, \<^verbatim>\<open>fgetc\<close>).
\<close>

record istream =
  unread :: "uint8_t list"
  eof :: bool

definition available :: "istream \<Rightarrow> uint8_t list" where
  "available stream = (if eof stream then [] else unread stream)"

text \<open>
  \<open>fread ptr sz stream\<close> is \<^verbatim>\<open>fread(ptr, sz, 1, stream)\<close>. The array \<open>ptr\<close> is a function
  from indices to bytes. The call stores the bytes it obtains at the indices from 0 on and
  leaves the other elements of the array as they were; it returns the array, the number
  of complete items read (1 or 0) and the stream. When the stream holds fewer than \<open>sz\<close>
  bytes, all of them are consumed and the end-of-file indicator is set. (ISO C leaves the
  value of a partially read item indeterminate; the C libraries store the bytes they
  obtained, which is what is modelled.)
\<close>

definition fread ::
  "(nat \<Rightarrow> uint8_t) \<Rightarrow> nat \<Rightarrow> istream \<Rightarrow> (nat \<Rightarrow> uint8_t) \<times> nat \<times> istream" where
  "fread ptr sz stream =
    (let got = take sz (available stream) in
      (\<lambda>i. if i < length got then got ! i else ptr i,
       if length got = sz then 1 else 0,
       stream\<lparr>unread := drop (length got) (unread stream),
              eof := (eof stream \<or> length got < sz)\<rparr>))"

section \<open>The codec\<close>

definition write_int32 :: "ostream \<Rightarrow> int32_t \<Rightarrow> ostream" where
  "write_int32 file v =
    (let bytes = [ucast (signed_drop_bit 24 v AND 0xFF),
                  ucast (signed_drop_bit 16 v AND 0xFF),
                  ucast (signed_drop_bit 8 v AND 0xFF),
                  ucast (v AND 0xFF)] :: uint8_t list
     in fwrite bytes file)"

definition write_float :: "ostream \<Rightarrow> float32 \<Rightarrow> ostream" where
  "write_float file v =
    (let as_int = float_bits v;
         bytes = [ucast (drop_bit 24 as_int AND 0xFF),
                  ucast (drop_bit 16 as_int AND 0xFF),
                  ucast (drop_bit 8 as_int AND 0xFF),
                  ucast (as_int AND 0xFF)] :: uint8_t list
     in fwrite bytes file)"

text \<open>
  The array \<^verbatim>\<open>uint8_t bytes[4]\<close> of the two readers is not initialised: its content before
  the call of \<^verbatim>\<open>fread\<close> is the parameter \<open>bytes0\<close>. The result of \<^verbatim>\<open>fread\<close> is dropped.
\<close>

definition read_int32 :: "(nat \<Rightarrow> uint8_t) \<Rightarrow> istream \<Rightarrow> int32_t \<times> istream" where
  "read_int32 bytes0 file =
    (case fread bytes0 4 file of (bytes, n, file') \<Rightarrow>
      (((push_bit 24 (ucast (bytes 0)) OR push_bit 16 (ucast (bytes 1)))
          OR push_bit 8 (ucast (bytes 2))) OR ucast (bytes 3),
       file'))"

definition read_float :: "(nat \<Rightarrow> uint8_t) \<Rightarrow> istream \<Rightarrow> float32 \<times> istream" where
  "read_float bytes0 file =
    (case fread bytes0 4 file of (bytes, n, file') \<Rightarrow>
      (let as_int = ((push_bit 24 (ucast (bytes 0)) OR push_bit 16 (ucast (bytes 1)))
                       OR push_bit 8 (ucast (bytes 2))) OR ucast (bytes 3) :: uint32_t
       in (Float32 as_int, file')))"

record MyStruct =
  id_f :: int32_t
  value_f :: float32

definition write_struct :: "ostream \<Rightarrow> MyStruct \<Rightarrow> ostream" where
  "write_struct file s = write_float (write_int32 file (id_f s)) (value_f s)"

text \<open>
  \<open>read_struct\<close> assigns the two fields of \<^verbatim>\<open>*s\<close>; \<open>b1\<close> and \<open>b2\<close> are the prior contents
  of the arrays of the two readers it calls.
\<close>

definition read_struct ::
  "(nat \<Rightarrow> uint8_t) \<Rightarrow> (nat \<Rightarrow> uint8_t) \<Rightarrow> istream \<Rightarrow> MyStruct \<Rightarrow> MyStruct \<times> istream" where
  "read_struct b1 b2 file s =
    (case read_int32 b1 file of (i, file1) \<Rightarrow>
     case read_float b2 file1 of (x, file2) \<Rightarrow>
      (s\<lparr>id_f := i, value_f := x\<rparr>, file2))"

text \<open>
  The 32-bit pattern that both readers assemble from four bytes, most significant first;
  it abbreviates their common expression in the statements below.
\<close>

definition be32 :: "uint8_t \<Rightarrow> uint8_t \<Rightarrow> uint8_t \<Rightarrow> uint8_t \<Rightarrow> uint32_t" where
  "be32 b0 b1 b2 b3 =
    ((push_bit 24 (ucast b0) OR push_bit 16 (ucast b1)) OR push_bit 8 (ucast b2)) OR ucast b3"

text \<open>
  The byte a reader finds at index \<open>i\<close> counted from the current position of the stream:
  the byte of the stream when it offers more than \<open>i\<close> bytes, and otherwise \<open>old\<close>, the
  previous content of the array element.
\<close>

definition byte_at :: "istream \<Rightarrow> nat \<Rightarrow> uint8_t \<Rightarrow> uint8_t" where
  "byte_at src i old = (if i < length (available src) then available src ! i else old)"

text \<open>An array whose every element holds the byte \<open>b\<close>, for the concrete runs below.\<close>

definition filled :: "uint8_t \<Rightarrow> nat \<Rightarrow> uint8_t" where
  "filled b i = b"

section \<open>Byte order\<close>

text \<open>
  C7. \<open>write_int32\<close> of 1 emits the bytes 00 00 00 01 and \<open>write_int32\<close> of -1 emits
  FF FF FF FF, most significant byte first, after whatever the stream already holds.
\<close>

theorem write_int32_one_minus_one:
  "write_int32 file 1 = file @ [0x00, 0x00, 0x00, 0x01] \<and>
   write_int32 file (- 1) = file @ [0xFF, 0xFF, 0xFF, 0xFF]"
  by (simp add: write_int32_def fwrite_def)

section \<open>Bytes of a 32-bit pattern\<close>

lemma ff_mask: "(0xFF :: 32 word) = mask 8"
  by (simp add: mask_eq_exp_minus_1)

lemma byte_of_and_ff: "(ucast (w AND 0xFF :: 32 word) :: 8 word) = ucast w"
  unfolding ff_mask by (rule bit_word_eqI) (auto simp add: bit_simps)

text \<open>In the low 8 bits, the arithmetic shift by at most 24 places is the logical one.\<close>

lemma byte_of_signed_shift:
  "n \<le> 24 \<Longrightarrow> (ucast (signed_drop_bit n (v :: 32 word)) :: 8 word) = ucast (drop_bit n v)"
  by (rule bit_word_eqI) (auto simp add: bit_simps)

lemma write_int32_bytes:
  "write_int32 file v =
     file @ [ucast (drop_bit 24 v), ucast (drop_bit 16 v), ucast (drop_bit 8 v), ucast v]"
  by (simp add: write_int32_def fwrite_def byte_of_and_ff byte_of_signed_shift)

lemma write_float_bytes:
  "write_float file x =
     file @ [ucast (drop_bit 24 (float_bits x)), ucast (drop_bit 16 (float_bits x)),
             ucast (drop_bit 8 (float_bits x)), ucast (float_bits x)]"
  by (simp add: write_float_def fwrite_def byte_of_and_ff Let_def)

lemma be32_of_bytes:
  "be32 (ucast (drop_bit 24 v)) (ucast (drop_bit 16 v)) (ucast (drop_bit 8 v)) (ucast v) = v"
proof (rule bit_word_eqI)
  fix n :: nat
  assume "n < LENGTH(32)"
  then consider "n < 8" | "8 \<le> n" "n < 16" | "16 \<le> n" "n < 24" | "24 \<le> n" "n < 32"
    by fastforce
  then show "bit (be32 (ucast (drop_bit 24 v)) (ucast (drop_bit 16 v))
                       (ucast (drop_bit 8 v)) (ucast v)) n = bit v n"
    unfolding be32_def by cases (auto simp add: bit_simps)
qed

lemma bytes_of_be32:
  "(ucast (drop_bit 24 (be32 b0 b1 b2 b3)) :: 8 word) = b0"
  "(ucast (drop_bit 16 (be32 b0 b1 b2 b3)) :: 8 word) = b1"
  "(ucast (drop_bit 8 (be32 b0 b1 b2 b3)) :: 8 word) = b2"
  "(ucast (be32 b0 b1 b2 b3) :: 8 word) = b3"
  unfolding be32_def
  by (rule bit_word_eqI, auto simp add: bit_simps dest: bit_imp_le_length)+

section \<open>Reading from a stream\<close>

lemma read_int32_whole:
  assumes "\<not> eof file" and "4 \<le> length (unread file)"
  shows "read_int32 bytes0 file =
     (be32 (unread file ! 0) (unread file ! 1) (unread file ! 2) (unread file ! 3),
      file\<lparr>unread := drop 4 (unread file)\<rparr>)"
  using assms by (simp add: read_int32_def fread_def available_def be32_def Let_def min_def)

lemma read_float_whole:
  assumes "\<not> eof file" and "4 \<le> length (unread file)"
  shows "read_float bytes0 file =
     (Float32 (be32 (unread file ! 0) (unread file ! 1) (unread file ! 2) (unread file ! 3)),
      file\<lparr>unread := drop 4 (unread file)\<rparr>)"
  using assms by (simp add: read_float_def fread_def available_def be32_def Let_def min_def)

lemma read_int32_short:
  assumes "length (available file) < 4"
  shows "read_int32 bytes0 file =
     (be32 (if 0 < length (available file) then available file ! 0 else bytes0 0)
           (if 1 < length (available file) then available file ! 1 else bytes0 1)
           (if 2 < length (available file) then available file ! 2 else bytes0 2)
           (bytes0 3),
      file\<lparr>unread := drop (length (available file)) (unread file), eof := True\<rparr>)"
  using assms by (simp add: read_int32_def fread_def be32_def Let_def min_def)

lemma read_float_short:
  assumes "length (available file) < 4"
  shows "read_float bytes0 file =
     (Float32 (be32 (if 0 < length (available file) then available file ! 0 else bytes0 0)
           (if 1 < length (available file) then available file ! 1 else bytes0 1)
           (if 2 < length (available file) then available file ! 2 else bytes0 2)
           (bytes0 3)),
      file\<lparr>unread := drop (length (available file)) (unread file), eof := True\<rparr>)"
  using assms by (simp add: read_float_def fread_def be32_def Let_def min_def)

lemma read_int32_four:
  "read_int32 bytes0 \<lparr>unread = b0 # b1 # b2 # b3 # rest, eof = False\<rparr> =
     (be32 b0 b1 b2 b3, \<lparr>unread = rest, eof = False\<rparr>)"
  by (simp add: read_int32_whole)

lemma read_float_four:
  "read_float bytes0 \<lparr>unread = b0 # b1 # b2 # b3 # rest, eof = False\<rparr> =
     (Float32 (be32 b0 b1 b2 b3), \<lparr>unread = rest, eof = False\<rparr>)"
  by (simp add: read_float_whole)

section \<open>Round trips\<close>

text \<open>
  C1. For every 32-bit integer \<open>v\<close>, \<open>read_int32\<close> on a stream that starts with the four
  bytes \<open>write_int32\<close> emits for \<open>v\<close> returns \<open>v\<close>, whatever the array of the reader held
  before, and leaves the bytes that follow unread.
\<close>

theorem read_int32_write_int32:
  "read_int32 bytes0 \<lparr>unread = write_int32 [] v @ rest, eof = False\<rparr> =
     (v, \<lparr>unread = rest, eof = False\<rparr>)"
  by (simp add: write_int32_bytes read_int32_four be32_of_bytes)

text \<open>
  C2. For every 32-bit pattern of a float \<open>x\<close> (no pattern is set apart: NaN payloads,
  signed zeros and infinities are patterns like the others), \<open>read_float\<close> on a stream that
  starts with the four bytes \<open>write_float\<close> emits for \<open>x\<close> returns a float with the same
  32 bits.
\<close>

theorem read_float_write_float:
  "read_float bytes0 \<lparr>unread = write_float [] x @ rest, eof = False\<rparr> =
     (x, \<lparr>unread = rest, eof = False\<rparr>) \<and>
   float_bits (fst (read_float bytes0 \<lparr>unread = write_float [] x @ rest, eof = False\<rparr>)) =
     float_bits x"
  by (simp add: write_float_bytes read_float_four be32_of_bytes)

text \<open>
  C6. The integer encoding is a bijection between the 32-bit integers and the sequences of
  four bytes, and decoding is its inverse: writing what \<open>read_int32\<close> returns for any four
  bytes emits these four bytes; reading what \<open>write_int32\<close> emits for \<open>v\<close> returns \<open>v\<close>;
  two integers with the same encoding are equal; and the encodings are exactly the byte
  sequences of length 4.
\<close>

theorem int32_codec_bijection:
  "write_int32 file (fst (read_int32 bytes0 \<lparr>unread = b0 # b1 # b2 # b3 # rest, eof = False\<rparr>)) =
     file @ [b0, b1, b2, b3] \<and>
   fst (read_int32 bytes0 \<lparr>unread = write_int32 [] v @ rest, eof = False\<rparr>) = v \<and>
   (write_int32 file v = write_int32 file w) = (v = w) \<and>
   range (write_int32 []) = {bs. length bs = 4}"
proof -
  have 1: "write_int32 out (fst (read_int32 buf \<lparr>unread = c0 # c1 # c2 # c3 # more, eof = False\<rparr>)) =
     out @ [c0, c1, c2, c3]" for out buf c0 c1 c2 c3 more
    by (simp add: read_int32_four write_int32_bytes bytes_of_be32)
  have 2: "fst (read_int32 bytes0 \<lparr>unread = write_int32 [] u @ rest, eof = False\<rparr>) = u" for u
    by (simp add: write_int32_bytes read_int32_four be32_of_bytes)
  have 3: "(write_int32 file v = write_int32 file w) = (v = w)"
  proof
    assume eq: "write_int32 file v = write_int32 file w"
    then have "write_int32 [] v = write_int32 [] w"
      by (simp add: write_int32_bytes)
    then have "fst (read_int32 bytes0 \<lparr>unread = write_int32 [] v @ rest, eof = False\<rparr>) =
               fst (read_int32 bytes0 \<lparr>unread = write_int32 [] w @ rest, eof = False\<rparr>)"
      by simp
    then show "v = w" by (simp only: 2)
  qed simp
  have 4: "range (write_int32 []) = {bs. length bs = 4}"
  proof (intro set_eqI iffI)
    fix bs assume "bs \<in> range (write_int32 [])"
    then show "bs \<in> {bs. length bs = 4}" by (auto simp add: write_int32_bytes)
  next
    fix bs :: "uint8_t list" assume "bs \<in> {bs. length bs = 4}"
    then obtain c0 c1 c2 c3 where bs: "bs = [c0, c1, c2, c3]"
      by (auto simp add: length_Suc_conv eval_nat_numeral)
    have "write_int32 [] (fst (read_int32 (\<lambda>_. 0) \<lparr>unread = c0 # c1 # c2 # c3 # [], eof = False\<rparr>)) = bs"
      unfolding bs using 1 [of "[]"] by simp
    then show "bs \<in> range (write_int32 [])" by (metis rangeI)
  qed
  from 1 2 3 4 show ?thesis by blast
qed

section \<open>Length of the output\<close>

text \<open>
  C8. \<open>write_int32\<close> and \<open>write_float\<close> each add exactly 4 bytes to the stream and
  \<open>write_struct\<close> adds exactly 8, after the bytes the stream already holds, which stay as
  they are.
\<close>

theorem write_lengths:
  "length (write_int32 file v) = length file + 4 \<and>
   take (length file) (write_int32 file v) = file \<and>
   length (write_float file x) = length file + 4 \<and>
   take (length file) (write_float file x) = file \<and>
   length (write_struct file s) = length file + 8 \<and>
   take (length file) (write_struct file s) = file"
  by (simp add: write_struct_def write_int32_bytes write_float_bytes)

section \<open>Sign of the decoded integer\<close>

lemma bit31_be32: "bit (be32 b0 b1 b2 b3) 31 = bit b0 7"
  unfolding be32_def by (auto simp add: bit_simps dest: bit_imp_le_length)

lemma or_push_eq_add:
  "0 \<le> a \<Longrightarrow> a < 2 ^ n \<Longrightarrow> (push_bit n b OR a :: int) = b * 2 ^ n + a"
  by (metis add.commute concat_bit_def concat_bit_eq or.commute push_bit_eq_mult take_bit_int_eq_self)

lemma uint_be32:
  "uint (be32 b0 b1 b2 b3) = uint b0 * 2 ^ 24 + uint b1 * 2 ^ 16 + uint b2 * 2 ^ 8 + uint b3"
proof -
  have b: "uint b0 < 2 ^ 8" "uint b1 < 2 ^ 8" "uint b2 < 2 ^ 8" "uint b3 < 2 ^ 8"
    using uint_bounded [of b0] uint_bounded [of b1] uint_bounded [of b2] uint_bounded [of b3]
    by simp_all
  have nn: "0 \<le> uint b0" "0 \<le> uint b1" "0 \<le> uint b2" "0 \<le> uint b3" by simp_all
  have 1: "push_bit 8 (uint b2) OR uint b3 = uint b2 * 2 ^ 8 + uint b3"
    using b nn by (simp add: or_push_eq_add)
  have 2: "push_bit 16 (uint b1) OR (uint b2 * 2 ^ 8 + uint b3)
            = uint b1 * 2 ^ 16 + (uint b2 * 2 ^ 8 + uint b3)"
    using b nn by (intro or_push_eq_add) auto
  have 3: "push_bit 24 (uint b0) OR (uint b1 * 2 ^ 16 + (uint b2 * 2 ^ 8 + uint b3))
            = uint b0 * 2 ^ 24 + (uint b1 * 2 ^ 16 + (uint b2 * 2 ^ 8 + uint b3))"
    using b nn by (intro or_push_eq_add) auto
  have "uint (be32 b0 b1 b2 b3) =
     push_bit 24 (uint b0) OR (push_bit 16 (uint b1) OR (push_bit 8 (uint b2) OR uint b3))"
    unfolding be32_def
    by (rule bit_eqI) (auto simp add: bit_simps dest: bit_imp_le_length)
  then show ?thesis by (simp only: 1 2 3 add.assoc)
qed

lemma sint_negative: "bit (w :: 32 word) 31 \<Longrightarrow> sint w = uint w - 2 ^ 32"
  by (simp add: sint_uint signed_take_bit_eq_take_bit_minus bit_simps take_bit_int_eq_self
        uint_bounded [of w, simplified])

text \<open>
  C9. When bit 7 of the first of the four bytes is set, the value \<open>read_int32\<close> returns,
  read as a signed integer, is the unsigned big-endian number of the four bytes minus
  \<open>2 ^ 32\<close>, and it is negative.
\<close>

theorem read_int32_negative:
  assumes "bit b0 7"
  shows "sint (fst (read_int32 bytes0 \<lparr>unread = b0 # b1 # b2 # b3 # rest, eof = False\<rparr>)) =
           uint b0 * 2 ^ 24 + uint b1 * 2 ^ 16 + uint b2 * 2 ^ 8 + uint b3 - 2 ^ 32 \<and>
         sint (fst (read_int32 bytes0 \<lparr>unread = b0 # b1 # b2 # b3 # rest, eof = False\<rparr>)) < 0"
proof -
  have neg: "bit (be32 b0 b1 b2 b3) 31"
    using assms by (simp add: bit31_be32)
  have val: "sint (be32 b0 b1 b2 b3) =
      uint b0 * 2 ^ 24 + uint b1 * 2 ^ 16 + uint b2 * 2 ^ 8 + uint b3 - 2 ^ 32"
    using sint_negative [OF neg] by (simp only: uint_be32)
  have "sint (be32 b0 b1 b2 b3) < 0"
    using neg bit_last_iff [of "be32 b0 b1 b2 b3"] by simp
  with val show ?thesis by (simp add: read_int32_four)
qed

text \<open>C9 at the bytes FF FF FF 85: the value returned is -123.\<close>

theorem read_int32_negative_witness:
  "bit (0xFF :: uint8_t) 7 \<and>
   sint (fst (read_int32 (filled 0) \<lparr>unread = [0xFF, 0xFF, 0xFF, 0x85], eof = False\<rparr>)) = - 123 \<and>
   sint (fst (read_int32 (filled 0) \<lparr>unread = [0xFF, 0xFF, 0xFF, 0x85], eof = False\<rparr>)) < 0"
proof -
  have h: "bit (0xFF :: uint8_t) 7" by (simp add: bit_simps)
  show ?thesis
    using h read_int32_negative [OF h, of "filled 0" "0xFF" "0xFF" "0x85" "[]"] by simp
qed

section \<open>Sources with fewer than four bytes\<close>

text \<open>
  C3, as stated, fails. On a stream that offers the single byte 12 and with an array that
  held zeros, \<open>read_int32\<close> hands its caller the ordinary value \<open>0x12000000\<close>, the value
  it returns for the complete stream 12 00 00 00, and \<open>read_float\<close> the float with these
  bits: a partially decoded, zero-filled value and no error.
\<close>

theorem read_truncated_counterexample:
  "length (available \<lparr>unread = [0x12], eof = False\<rparr>) < 4 \<and>
   read_int32 (filled 0) \<lparr>unread = [0x12], eof = False\<rparr> =
     (0x12000000, \<lparr>unread = [], eof = True\<rparr>) \<and>
   read_int32 (filled 0) \<lparr>unread = [0x12, 0, 0, 0], eof = False\<rparr> =
     (0x12000000, \<lparr>unread = [], eof = False\<rparr>) \<and>
   read_float (filled 0) \<lparr>unread = [0x12], eof = False\<rparr> =
     (Float32 0x12000000, \<lparr>unread = [], eof = True\<rparr>) \<and>
   read_float (filled 0) \<lparr>unread = [0x12, 0, 0, 0], eof = False\<rparr> =
     (Float32 0x12000000, \<lparr>unread = [], eof = False\<rparr>)"
  by (simp add: read_int32_def read_float_def fread_def available_def filled_def)

lemma available_at_eof: "eof f \<Longrightarrow> available f = []"
  by (simp add: available_def)

lemma short_list:
  "length xs < 4 \<Longrightarrow>
     xs = [] \<or> (\<exists>a. xs = [a]) \<or> (\<exists>a b. xs = [a, b]) \<or> (\<exists>a b c. xs = [a, b, c])"
proof -
  assume "length xs < 4"
  then have "length xs = 0 \<or> length xs = 1 \<or> length xs = 2 \<or> length xs = 3" by arith
  then show ?thesis
    by (auto simp add: length_Suc_conv eval_nat_numeral)
qed

text \<open>
  C3, amended. On every stream that offers fewer than 4 bytes, \<open>read_int32\<close> and
  \<open>read_float\<close> signal nothing: each returns the value that a complete stream decodes to
  whose four bytes are the bytes offered, followed by the previous contents of the array
  of the reader at the remaining indices. The stream is left with no byte to offer and
  with its end-of-file indicator set.
\<close>

theorem read_truncated_returns_value:
  assumes "length (available file) < 4"
  shows "fst (read_int32 bytes0 file) =
           fst (read_int32 bytes1
                 \<lparr>unread = available file @
                    drop (length (available file)) [bytes0 0, bytes0 1, bytes0 2, bytes0 3],
                  eof = False\<rparr>) \<and>
         fst (read_float bytes0 file) =
           fst (read_float bytes1
                 \<lparr>unread = available file @
                    drop (length (available file)) [bytes0 0, bytes0 1, bytes0 2, bytes0 3],
                  eof = False\<rparr>) \<and>
         eof (snd (read_int32 bytes0 file)) \<and> available (snd (read_int32 bytes0 file)) = [] \<and>
         eof (snd (read_float bytes0 file)) \<and> available (snd (read_float bytes0 file)) = []"
proof -
  from short_list [OF assms]
  consider "available file = []" | a where "available file = [a]"
    | a b where "available file = [a, b]" | a b c where "available file = [a, b, c]"
    by blast
  then show ?thesis
  proof cases
    case 1
    then show ?thesis
      by (simp add: read_int32_short read_float_short read_int32_four read_float_four available_at_eof)
  next
    case 2
    then show ?thesis
      by (simp add: read_int32_short read_float_short read_int32_four read_float_four available_at_eof)
  next
    case 3
    then show ?thesis
      by (simp add: read_int32_short read_float_short read_int32_four read_float_four available_at_eof)
  next
    case 4
    then show ?thesis
      by (simp add: read_int32_short read_float_short read_int32_four read_float_four available_at_eof)
  qed
qed

text \<open>
  C3, amended, on the stream 12 34 with an array that held AA in every element: the value
  is the one of the complete stream 12 34 AA AA.
\<close>

theorem read_truncated_returns_value_witness:
  "length (available \<lparr>unread = [0x12, 0x34], eof = False\<rparr>) < 4 \<and>
   fst (read_int32 (filled 0xAA) \<lparr>unread = [0x12, 0x34], eof = False\<rparr>) =
     fst (read_int32 (filled 0) \<lparr>unread = [0x12, 0x34, 0xAA, 0xAA], eof = False\<rparr>) \<and>
   fst (read_float (filled 0xAA) \<lparr>unread = [0x12, 0x34], eof = False\<rparr>) =
     fst (read_float (filled 0) \<lparr>unread = [0x12, 0x34, 0xAA, 0xAA], eof = False\<rparr>) \<and>
   eof (snd (read_int32 (filled 0xAA) \<lparr>unread = [0x12, 0x34], eof = False\<rparr>)) \<and>
   available (snd (read_int32 (filled 0xAA) \<lparr>unread = [0x12, 0x34], eof = False\<rparr>)) = [] \<and>
   eof (snd (read_float (filled 0xAA) \<lparr>unread = [0x12, 0x34], eof = False\<rparr>)) \<and>
   available (snd (read_float (filled 0xAA) \<lparr>unread = [0x12, 0x34], eof = False\<rparr>)) = []"
proof -
  have h: "length (available \<lparr>unread = [0x12, 0x34], eof = False\<rparr>) < 4"
    by (simp add: available_def)
  show ?thesis
    using h read_truncated_returns_value [OF h, of "filled 0xAA" "filled 0"]
    by (simp add: available_def filled_def)
qed

section \<open>Records\<close>

lemma read_int32_any:
  "read_int32 bytes0 src =
     (be32 (byte_at src 0 (bytes0 0)) (byte_at src 1 (bytes0 1))
           (byte_at src 2 (bytes0 2)) (byte_at src 3 (bytes0 3)),
      src\<lparr>unread := drop (min 4 (length (available src))) (unread src),
          eof := (eof src \<or> length (unread src) < 4)\<rparr>)"
  by (auto simp add: read_int32_def fread_def be32_def byte_at_def available_def Let_def min_def)

lemma read_float_any:
  "read_float bytes0 src =
     (Float32 (be32 (byte_at src 0 (bytes0 0)) (byte_at src 1 (bytes0 1))
           (byte_at src 2 (bytes0 2)) (byte_at src 3 (bytes0 3))),
      src\<lparr>unread := drop (min 4 (length (available src))) (unread src),
          eof := (eof src \<or> length (unread src) < 4)\<rparr>)"
  by (auto simp add: read_float_def fread_def be32_def byte_at_def available_def Let_def min_def)

lemma MyStruct_assigned:
  "(t :: MyStruct)\<lparr>id_f := i, value_f := x\<rparr> = \<lparr>id_f = i, value_f = x\<rparr>"
  by (cases t) simp

text \<open>
  C4. \<open>write_struct\<close> emits the four bytes of \<open>write_int32\<close> for the field \<open>id\<close> and then the
  four bytes of \<open>write_float\<close> for the field \<open>value\<close>. \<open>read_struct\<close> calls \<open>read_int32\<close> and
  then \<open>read_float\<close> on the stream the first call leaves, and on the bytes \<open>write_struct\<close>
  emitted for \<open>s\<close> it gives back \<open>s\<close>: the same \<open>id\<close> and a \<open>value\<close> with the same bits.
\<close>

theorem write_struct_read_struct:
  "write_struct file s = file @ write_int32 [] (id_f s) @ write_float [] (value_f s) \<and>
   read_struct b1 b2 src t =
     (t\<lparr>id_f := fst (read_int32 b1 src),
        value_f := fst (read_float b2 (snd (read_int32 b1 src)))\<rparr>,
      snd (read_float b2 (snd (read_int32 b1 src)))) \<and>
   read_struct b1 b2 \<lparr>unread = write_struct [] s @ rest, eof = False\<rparr> t =
     (s, \<lparr>unread = rest, eof = False\<rparr>)"
proof -
  have 1: "write_struct file s = file @ write_int32 [] (id_f s) @ write_float [] (value_f s)"
    by (simp add: write_struct_def write_int32_bytes write_float_bytes)
  have 2: "read_struct b1 b2 src t =
     (t\<lparr>id_f := fst (read_int32 b1 src),
        value_f := fst (read_float b2 (snd (read_int32 b1 src)))\<rparr>,
      snd (read_float b2 (snd (read_int32 b1 src))))"
    by (simp add: read_struct_def split: prod.split)
  have 3: "read_struct b1 b2 \<lparr>unread = write_struct [] s @ rest, eof = False\<rparr> t =
     (s, \<lparr>unread = rest, eof = False\<rparr>)"
    by (simp add: read_struct_def write_struct_def write_int32_bytes write_float_bytes
          read_int32_four read_float_four be32_of_bytes)
  from 1 2 3 show ?thesis by blast
qed

text \<open>
  C5, as stated, fails. On a stream of the five bytes 00 00 00 7B 43, \<open>read_struct\<close>
  returns a record: its \<open>id\<close> is 123, decoded from a complete item (the first \<open>fread\<close>
  returns 1), and its \<open>value\<close> is made of the one byte left and of what the array of
  \<open>read_float\<close> held before (the second \<open>fread\<close> returns 0). Nothing fails.
\<close>

theorem read_struct_partial_counterexample:
  "read_struct (filled 0) (filled 0xAA) \<lparr>unread = [0, 0, 0, 0x7B, 0x43], eof = False\<rparr>
       \<lparr>id_f = 0, value_f = Float32 0\<rparr> =
     (\<lparr>id_f = 123, value_f = Float32 0x43AAAAAA\<rparr>, \<lparr>unread = [], eof = True\<rparr>) \<and>
   fst (snd (fread (filled 0) 4 \<lparr>unread = [0, 0, 0, 0x7B, 0x43], eof = False\<rparr>)) = 1 \<and>
   fst (snd (fread (filled 0xAA) 4 \<lparr>unread = [0x43], eof = False\<rparr>)) = 0"
  by (simp add: read_struct_def read_int32_def read_float_def fread_def available_def filled_def)

text \<open>
  C5, amended. \<open>read_struct\<close> has no failure and propagates no error: on every stream it
  returns a record with both fields assigned. Each of the eight bytes the two fields are
  assembled from is the byte of the stream at that position when the stream offers it, and
  otherwise the previous content of the array of the reader. So both fields are decoded
  from the stream when it offers at least 8 bytes, and with 4 to 7 bytes \<open>id\<close> is decoded
  and \<open>value\<close> is not. The end-of-file indicator of the stream is set exactly when it was
  set before or fewer than 8 bytes were left.
\<close>

theorem read_struct_always_returns:
  "read_struct b1 b2 src t =
     (t\<lparr>id_f := be32 (byte_at src 0 (b1 0)) (byte_at src 1 (b1 1))
                    (byte_at src 2 (b1 2)) (byte_at src 3 (b1 3)),
        value_f := Float32 (be32 (byte_at src 4 (b2 0)) (byte_at src 5 (b2 1))
                                 (byte_at src 6 (b2 2)) (byte_at src 7 (b2 3)))\<rparr>,
      src\<lparr>unread := (if eof src then unread src else drop 8 (unread src)),
          eof := (eof src \<or> length (unread src) < 8)\<rparr>)"
proof -
  let ?src1 = "src\<lparr>unread := drop (min 4 (length (available src))) (unread src),
                   eof := (eof src \<or> length (unread src) < 4)\<rparr>"
  have b: "byte_at ?src1 i old = byte_at src (4 + i) old" for i old
    by (auto simp add: byte_at_def available_def min_def)
  have u: "drop (min 4 (length (available ?src1))) (unread ?src1) =
           (if eof src then unread src else drop 8 (unread src))"
    by (auto simp add: available_def min_def)
  have e: "(eof ?src1 \<or> length (unread ?src1) < 4) = (eof src \<or> length (unread src) < 8)"
    by (auto simp add: available_def min_def)
  show ?thesis
    unfolding read_struct_def read_int32_any [of b1 src] prod.case
      read_float_any [of b2 ?src1] b u e
    by simp
qed

text \<open>
  C10. On a stream that offers at least 8 bytes, \<open>read_struct\<close> moves the stream past
  exactly the first 8 bytes and changes nothing else of it; the record it returns is made
  of the first four bytes (\<open>id\<close>) and the next four (\<open>value\<close>), and is the record read from a
  stream holding these 8 bytes only, whatever the arrays of the readers and the record
  held before.
\<close>

theorem read_struct_consumes_eight:
  assumes "\<not> eof src" and "8 \<le> length (unread src)"
  shows "snd (read_struct b1 b2 src t) = src\<lparr>unread := drop 8 (unread src)\<rparr> \<and>
         fst (read_struct b1 b2 src t) =
           fst (read_struct c1 c2 \<lparr>unread = take 8 (unread src), eof = False\<rparr> t') \<and>
         fst (read_struct b1 b2 src t) =
           \<lparr>id_f = be32 (unread src ! 0) (unread src ! 1) (unread src ! 2) (unread src ! 3),
            value_f = Float32 (be32 (unread src ! 4) (unread src ! 5) (unread src ! 6) (unread src ! 7))\<rparr>"
proof -
  let ?ident = "be32 (unread src ! 0) (unread src ! 1) (unread src ! 2) (unread src ! 3)"
  let ?val = "Float32 (be32 (unread src ! 4) (unread src ! 5) (unread src ! 6) (unread src ! 7))"
  have i: "read_int32 b1 src = (?ident, src\<lparr>unread := drop 4 (unread src)\<rparr>)"
    using assms by (simp add: read_int32_whole)
  have x: "read_float b2 (src\<lparr>unread := drop 4 (unread src)\<rparr>) =
      (?val, src\<lparr>unread := drop 8 (unread src)\<rparr>)"
    using assms by (simp add: read_float_whole)
  have i': "read_int32 c1 \<lparr>unread = take 8 (unread src), eof = False\<rparr> =
      (?ident, \<lparr>unread = drop 4 (take 8 (unread src)), eof = False\<rparr>)"
    using assms by (simp add: read_int32_whole)
  have x': "read_float c2 \<lparr>unread = drop 4 (take 8 (unread src)), eof = False\<rparr> =
      (?val, \<lparr>unread = [], eof = False\<rparr>)"
    using assms by (simp add: read_float_whole)
  show ?thesis
    by (simp add: read_struct_def i x i' x' MyStruct_assigned)
qed

text \<open>
  C10 on a stream of nine bytes: the record is made of the first eight, the ninth byte is
  left unread.
\<close>

theorem read_struct_consumes_eight_witness:
  "\<not> eof \<lparr>unread = [0, 0, 0, 0x7B, 0x43, 0xE4, 0x64, 0xFE, 0x99], eof = False\<rparr> \<and>
   8 \<le> length (unread \<lparr>unread = [0, 0, 0, 0x7B, 0x43, 0xE4, 0x64, 0xFE, 0x99], eof = False\<rparr>) \<and>
   snd (read_struct (filled 0) (filled 0xAA)
          \<lparr>unread = [0, 0, 0, 0x7B, 0x43, 0xE4, 0x64, 0xFE, 0x99], eof = False\<rparr>
          \<lparr>id_f = 0, value_f = Float32 0\<rparr>) = \<lparr>unread = [0x99], eof = False\<rparr> \<and>
   fst (read_struct (filled 0) (filled 0xAA)
          \<lparr>unread = [0, 0, 0, 0x7B, 0x43, 0xE4, 0x64, 0xFE, 0x99], eof = False\<rparr>
          \<lparr>id_f = 0, value_f = Float32 0\<rparr>) =
     fst (read_struct (filled 1) (filled 2)
          \<lparr>unread = [0, 0, 0, 0x7B, 0x43, 0xE4, 0x64, 0xFE], eof = False\<rparr>
          \<lparr>id_f = 7, value_f = Float32 9\<rparr>) \<and>
   fst (read_struct (filled 0) (filled 0xAA)
          \<lparr>unread = [0, 0, 0, 0x7B, 0x43, 0xE4, 0x64, 0xFE, 0x99], eof = False\<rparr>
          \<lparr>id_f = 0, value_f = Float32 0\<rparr>) = \<lparr>id_f = 123, value_f = Float32 0x43E464FE\<rparr>"
proof -
  let ?src = "\<lparr>unread = [0, 0, 0, 0x7B, 0x43, 0xE4, 0x64, 0xFE, 0x99 :: uint8_t], eof = False\<rparr>"
  have h1: "\<not> eof ?src" by simp
  have h2: "8 \<le> length (unread ?src)" by simp
  show ?thesis
    using read_struct_consumes_eight [OF h1 h2, of "filled 0" "filled 0xAA"
        "\<lparr>id_f = 0, value_f = Float32 0\<rparr>" "filled 1" "filled 2" "\<lparr>id_f = 7, value_f = Float32 9\<rparr>"]
    by (simp add: be32_def read_struct_def read_int32_def read_float_def fread_def
          available_def filled_def)
qed

end
